theory Spec2Isabelle
  imports Main
begin

section \<open>The gateway client of the BitingLip command-line interface\<close>

text \<open>
  The development follows \<^verbatim>\<open>src/cli/config.py\<close> and \<^verbatim>\<open>src/cli/client.py\<close>, with the
  entry point \<^verbatim>\<open>src/bitinglip.py\<close> and the worker commands of
  \<^verbatim>\<open>src/cli/commands/workers.py\<close>. Python exceptions are values of a sum type,
  dictionaries are association lists, and the number of HTTP attempts a call causes is
  returned next to its result.
\<close>

subsection \<open>JSON values\<close>

text \<open>
  What \<^verbatim>\<open>response.json()\<close> and \<^verbatim>\<open>json.loads\<close> return. A Python \<^verbatim>\<open>str\<close> is \<open>JStr\<close>,
  a \<^verbatim>\<open>dict\<close> is \<open>JObj\<close> with its items in order, the keys distinct. Numbers are the
  integers.
\<close>

datatype json =
    JNull
  | JBool bool
  | JInt int
  | JStr string
  | JArr "json list"
  | JObj "(string \<times> json) list"

subsection \<open>Configuration (\<^verbatim>\<open>src/cli/config.py\<close>)\<close>

text \<open>
  The fields of \<^verbatim>\<open>CLIConfig\<close> that the client and the entry point read or write.
\<close>

record CLIConfig =
  api_url :: string
  api_timeout :: int
  api_retries :: int
  api_key :: "string option"
  verbose :: bool
  quiet :: bool

text \<open>
  \<^verbatim>\<open>str.rstrip("/")\<close> and \<^verbatim>\<open>str.lstrip("/")\<close>: every trailing, respectively leading,
  occurrence of the character is removed.
\<close>

definition rstrip :: "string \<Rightarrow> char \<Rightarrow> string" where
  "rstrip s c = rev (dropWhile (\<lambda>x. x = c) (rev s))"

definition lstrip :: "string \<Rightarrow> char \<Rightarrow> string" where
  "lstrip s c = dropWhile (\<lambda>x. x = c) s"

text \<open>
  \<^verbatim>\<open>get_api_url(config, endpoint)\<close>. An empty endpoint is falsy in Python: the base URL
  is returned without a separator.
\<close>

definition get_api_url :: "CLIConfig \<Rightarrow> string \<Rightarrow> string" where
  "get_api_url config endpoint =
     (let base_url = rstrip (api_url config) (CHR ''/'') in
      if endpoint \<noteq> []
      then base_url @ ''/'' @ lstrip endpoint (CHR ''/'')
      else base_url)"

text \<open>
  \<^verbatim>\<open>CLIConfig()\<close> is a pydantic \<^verbatim>\<open>BaseSettings\<close>: a field takes the value of its
  \<^verbatim>\<open>BITINGLIP_\<close> variable when the environment (or \<^verbatim>\<open>.env\<close>) has one, else the default of
  its \<^verbatim>\<open>Field\<close>. The environment is taken after pydantic's coercion to the declared field
  type. The class declares no validator.
\<close>

record environment =
  env_api_url :: "string option"
  env_api_timeout :: "int option"
  env_api_retries :: "int option"
  env_api_key :: "string option"
  env_verbose :: "bool option"
  env_quiet :: "bool option"

definition empty_environment :: environment where
  "empty_environment =
     \<lparr>env_api_url = None, env_api_timeout = None, env_api_retries = None,
      env_api_key = None, env_verbose = None, env_quiet = None\<rparr>"

definition CLIConfig_init :: "environment \<Rightarrow> CLIConfig" where
  "CLIConfig_init env =
     \<lparr>api_url = (case env_api_url env of Some u \<Rightarrow> u | None \<Rightarrow> ''http://localhost:8080''),
      api_timeout = (case env_api_timeout env of Some t \<Rightarrow> t | None \<Rightarrow> 30),
      api_retries = (case env_api_retries env of Some r \<Rightarrow> r | None \<Rightarrow> 3),
      api_key = env_api_key env,
      verbose = (case env_verbose env of Some b \<Rightarrow> b | None \<Rightarrow> False),
      quiet = (case env_quiet env of Some b \<Rightarrow> b | None \<Rightarrow> False)\<rparr>"

text \<open>
  The group callback \<^verbatim>\<open>cli\<close> of \<^verbatim>\<open>src/bitinglip.py\<close>: the configuration is created by
  \<^verbatim>\<open>ctx.ensure_object(CLIConfig)\<close>, then every option whose value is truthy overwrites
  its field by plain assignment. \<^verbatim>\<open>None\<close>, the empty string and \<^verbatim>\<open>0\<close> are falsy.
  The output format and the logging set-up are left out.
\<close>

record flags =
  flag_api_url :: "string option"
  flag_timeout :: "int option"
  flag_verbose :: bool
  flag_quiet :: bool
  flag_api_key :: "string option"

definition no_flags :: flags where
  "no_flags =
     \<lparr>flag_api_url = None, flag_timeout = None, flag_verbose = False,
      flag_quiet = False, flag_api_key = None\<rparr>"

definition truthy_str :: "string option \<Rightarrow> bool" where
  "truthy_str v = (case v of None \<Rightarrow> False | Some s \<Rightarrow> s \<noteq> [])"

definition truthy_int :: "int option \<Rightarrow> bool" where
  "truthy_int v = (case v of None \<Rightarrow> False | Some i \<Rightarrow> i \<noteq> 0)"

definition cli :: "environment \<Rightarrow> flags \<Rightarrow> CLIConfig" where
  "cli env fl =
     (let config = CLIConfig_init env;
          config = (if truthy_str (flag_api_url fl)
                    then config\<lparr>api_url := the (flag_api_url fl)\<rparr> else config);
          config = (if truthy_int (flag_timeout fl)
                    then config\<lparr>api_timeout := the (flag_timeout fl)\<rparr> else config);
          config = (if flag_verbose fl then config\<lparr>verbose := True\<rparr> else config);
          config = (if flag_quiet fl then config\<lparr>quiet := True\<rparr> else config);
          config = (if truthy_str (flag_api_key fl)
                    then config\<lparr>api_key := flag_api_key fl\<rparr> else config)
      in config)"

subsection \<open>Responses, requests and exceptions\<close>

text \<open>
  A \<^verbatim>\<open>requests.Response\<close> as the client and the transport read it: \<open>json_body\<close> is the
  outcome of \<^verbatim>\<open>response.json()\<close>, \<open>None\<close> when it raises \<^verbatim>\<open>json.JSONDecodeError\<close>;
  \<open>body_text\<close> is \<^verbatim>\<open>response.text\<close>; \<open>retry_after\<close> and \<open>location\<close> are the headers
  \<^verbatim>\<open>Retry-After\<close> and \<^verbatim>\<open>Location\<close>, \<open>None\<close> when absent.
\<close>

record response =
  status_code :: int
  reason :: string
  body_text :: string
  json_body :: "json option"
  retry_after :: "string option"
  location :: "string option"

text \<open>
  The request handed to \<^verbatim>\<open>session.request\<close>: method, URL, timeout and the keyword
  arguments \<^verbatim>\<open>params\<close> and \<^verbatim>\<open>json\<close> the facades pass.
\<close>

record http_request =
  req_method :: string
  req_url :: string
  req_timeout :: int
  req_params :: "(string \<times> string) list option"
  req_json :: "json option"

text \<open>
  An exception raised by \<^verbatim>\<open>session.request\<close>, with the name of its class and the text of
  \<^verbatim>\<open>str(e)\<close>: a \<open>RequestException\<close> when the class is \<^verbatim>\<open>requests.RequestException\<close> or
  one of its subclasses (\<^verbatim>\<open>ConnectTimeout\<close>, \<^verbatim>\<open>ReadTimeout\<close>, \<^verbatim>\<open>ConnectionError\<close>,
  \<^verbatim>\<open>InvalidURL\<close>, \<^verbatim>\<open>InvalidJSONError\<close>, \<^verbatim>\<open>InvalidHeader\<close>, \<^verbatim>\<open>RetryError\<close>,
  \<^verbatim>\<open>TooManyRedirects\<close>), an \<open>OtherException\<close> when it is not (\<^verbatim>\<open>ValueError\<close>, urllib3's
  \<^verbatim>\<open>LocationParseError\<close>).
\<close>

datatype raised =
    RequestException string string
  | OtherException string string

text \<open>
  What leaves \<^verbatim>\<open>_make_request\<close>: its own \<^verbatim>\<open>BitingLipAPIError(message, status_code,
  response)\<close>; the \<^verbatim>\<open>AttributeError\<close> of a \<^verbatim>\<open>.get\<close> on a value that is no dictionary (with
  the name of the value's Python type); and an exception of the session that no
  \<^verbatim>\<open>except\<close> clause catches, with its class and text.
\<close>

datatype exn =
    BitingLipAPIError (message: json) (error_status_code: "int option")
      (error_response: "json option")
  | AttributeError string
  | Propagated string string

text \<open>\<^verbatim>\<open>str(n)\<close> of an integer, as the f-strings print it.\<close>

fun str_nat :: "nat \<Rightarrow> string" where
  "str_nat n =
     (if n < 10 then [''0123456789'' ! n]
      else str_nat (n div 10) @ [''0123456789'' ! (n mod 10)])"

declare str_nat.simps [simp del]

definition str_int :: "int \<Rightarrow> string" where
  "str_int i = (if i < 0 then CHR ''-'' # str_nat (nat (- i)) else str_nat (nat i))"

fun type_name :: "json \<Rightarrow> string" where
  "type_name JNull = ''NoneType''"
| "type_name (JBool _) = ''bool''"
| "type_name (JInt _) = ''int''"
| "type_name (JStr _) = ''str''"
| "type_name (JArr _) = ''list''"
| "type_name (JObj _) = ''dict''"

text \<open>\<^verbatim>\<open>value.get(key, default)\<close>: only a dictionary has the method.\<close>

fun dict_get :: "json \<Rightarrow> string \<Rightarrow> json \<Rightarrow> exn + json" where
  "dict_get (JObj items) key dflt =
     Inr (case map_of items key of Some v \<Rightarrow> v | None \<Rightarrow> dflt)"
| "dict_get v key dflt = Inl (AttributeError (type_name v))"

subsection \<open>The transport: requests and urllib3\<close>

text \<open>
  \<^verbatim>\<open>session.request\<close> belongs to requests and urllib3, not to the repository. Its
  control flow is written here after \<^verbatim>\<open>requests/sessions.py\<close>, \<^verbatim>\<open>requests/adapters.py\<close>,
  \<^verbatim>\<open>urllib3/util/retry.py\<close>, \<^verbatim>\<open>urllib3/util/timeout.py\<close> and
  \<^verbatim>\<open>urllib3/connectionpool.py\<close>, for a server that answers every attempt. What the
  libraries decide by parsing text is a parameter:
  \<^item> \<open>prepare_request\<close>: what \<^verbatim>\<open>Session.prepare_request\<close> raises for a request (a URL
    that requests rejects, a JSON value that \<^verbatim>\<open>json.dumps(..., allow_nan=False)\<close> cannot
    write), \<open>None\<close> when it raises nothing;
  \<^item> \<open>connection_for\<close>: what \<^verbatim>\<open>Session.get_adapter\<close> and the adapter's connection set-up
    raise for a URL;
  \<^item> \<open>parse_target\<close>: the text of the \<^verbatim>\<open>LocationParseError\<close> that \<^verbatim>\<open>parse_url\<close> at the head
    of \<^verbatim>\<open>urlopen\<close> raises for the target of a URL;
  \<^item> \<open>parse_retry_after\<close>: whether \<^verbatim>\<open>Retry.parse_retry_after\<close> accepts a header value
    (digits, or a date that \<^verbatim>\<open>email.utils.parsedate_tz\<close> reads);
  \<^item> \<open>redirect_url\<close>: the URL that \<^verbatim>\<open>resolve_redirects\<close> builds from a request and the
    \<^verbatim>\<open>Location\<close> header of its response.
  Sleeping is not modelled, only the exception that parsing the header may raise.
\<close>

record library =
  prepare_request :: "http_request \<Rightarrow> raised option"
  connection_for :: "string \<Rightarrow> raised option"
  parse_target :: "string \<Rightarrow> string option"
  parse_retry_after :: "string \<Rightarrow> bool"
  redirect_url :: "http_request \<Rightarrow> string \<Rightarrow> string"

text \<open>
  The constructor \<^verbatim>\<open>BitingLipClient.__init__\<close> mounts an \<^verbatim>\<open>HTTPAdapter\<close> whose
  \<^verbatim>\<open>max_retries\<close> is \<^verbatim>\<open>Retry(total=config.api_retries, status_forcelist=[429, 500, 502,
  503, 504], backoff_factor=1, raise_on_status=False)\<close>. The other arguments of \<^verbatim>\<open>Retry\<close>
  keep their defaults: the counters \<^verbatim>\<open>connect\<close>, \<^verbatim>\<open>read\<close>, \<^verbatim>\<open>redirect\<close>, \<^verbatim>\<open>status\<close> and
  \<^verbatim>\<open>other\<close> are \<^verbatim>\<open>None\<close> and take no part.
\<close>

record Retry =
  total :: int
  status_forcelist :: "int list"
  allowed_methods :: "string list"
  backoff_factor :: int
  raise_on_status :: bool
  respect_retry_after_header :: bool

definition DEFAULT_ALLOWED_METHODS :: "string list" where
  "DEFAULT_ALLOWED_METHODS = [''HEAD'', ''GET'', ''PUT'', ''DELETE'', ''OPTIONS'', ''TRACE'']"

definition RETRY_AFTER_STATUS_CODES :: "int list" where
  "RETRY_AFTER_STATUS_CODES = [413, 429, 503]"

definition retry_strategy :: "CLIConfig \<Rightarrow> Retry" where
  "retry_strategy config =
     \<lparr>total = api_retries config,
      status_forcelist = [429, 500, 502, 503, 504],
      allowed_methods = DEFAULT_ALLOWED_METHODS,
      backoff_factor = 1,
      raise_on_status = False,
      respect_retry_after_header = True\<rparr>"

text \<open>\<^verbatim>\<open>str.upper()\<close> on the ASCII letters.\<close>

definition upper_char :: "char \<Rightarrow> char" where
  "upper_char c =
     (case map_of (zip ''abcdefghijklmnopqrstuvwxyz'' ''ABCDEFGHIJKLMNOPQRSTUVWXYZ'') c of
        Some u \<Rightarrow> u | None \<Rightarrow> c)"

definition upper :: "string \<Rightarrow> string" where
  "upper s = map upper_char s"

definition is_method_retryable :: "Retry \<Rightarrow> string \<Rightarrow> bool" where
  "is_method_retryable r method =
     (if allowed_methods r \<noteq> [] \<and> upper method \<notin> set (allowed_methods r)
      then False else True)"

definition is_retry :: "Retry \<Rightarrow> string \<Rightarrow> int \<Rightarrow> bool \<Rightarrow> bool" where
  "is_retry r method status has_retry_after =
     (if \<not> is_method_retryable r method then False
      else if status_forcelist r \<noteq> [] \<and> status \<in> set (status_forcelist r) then True
      else (total r \<noteq> 0 \<and> respect_retry_after_header r \<and> has_retry_after
            \<and> status \<in> set RETRY_AFTER_STATUS_CODES))"

text \<open>
  \<^verbatim>\<open>is_exhausted\<close>: \<^verbatim>\<open>filter(None, retry_counts)\<close> drops the absent counters and those that
  are \<^verbatim>\<open>0\<close>; the retries are exhausted when the least of the others is negative.
\<close>

definition is_exhausted :: "Retry \<Rightarrow> bool" where
  "is_exhausted r =
     (let retry_counts = filter (\<lambda>c. c \<noteq> 0) [total r] in
      if retry_counts = [] then False else fold min retry_counts (hd retry_counts) < 0)"

text \<open>\<^verbatim>\<open>increment\<close> after a response: \<open>None\<close> stands for \<^verbatim>\<open>MaxRetryError\<close>.\<close>

definition increment :: "Retry \<Rightarrow> Retry option" where
  "increment r =
     (let new_retry = r\<lparr>total := total r - 1\<rparr> in
      if is_exhausted new_retry then None else Some new_retry)"

definition has_retry_after :: "response \<Rightarrow> bool" where
  "has_retry_after resp = (case retry_after resp of None \<Rightarrow> False | Some v \<Rightarrow> v \<noteq> [])"

text \<open>
  \<^verbatim>\<open>retries.sleep(response)\<close>, called between two attempts: with
  \<^verbatim>\<open>respect_retry_after_header\<close> set, a \<^verbatim>\<open>Retry-After\<close> header that is present is parsed,
  and \<^verbatim>\<open>InvalidHeader\<close> is raised when it cannot be. \<open>sleep_raises\<close> is the text of that
  exception.
\<close>

definition sleep_raises :: "library \<Rightarrow> Retry \<Rightarrow> response \<Rightarrow> string option" where
  "sleep_raises lib r resp =
     (if respect_retry_after_header r
      then (case retry_after resp of
              None \<Rightarrow> None
            | Some v \<Rightarrow> if parse_retry_after lib v then None
                        else Some (''Invalid Retry-After header: '' @ v))
      else None)"

text \<open>
  \<^verbatim>\<open>urlopen\<close>: attempt \<open>k\<close> is sent, the server's answer to it is \<open>server k\<close>. The result
  is the outcome with the number of attempts made so far. A response that is to be
  retried increments the counters; when they are exhausted the response is returned
  (\<^verbatim>\<open>raise_on_status\<close> unset) or the adapter turns the \<^verbatim>\<open>MaxRetryError\<close> into a
  \<^verbatim>\<open>RetryError\<close>; otherwise \<^verbatim>\<open>sleep\<close> is called, whose \<^verbatim>\<open>InvalidHeader\<close> the adapter raises
  as the \<^verbatim>\<open>InvalidHeader\<close> of requests, and the next attempt follows.
\<close>

function urlopen ::
  "library \<Rightarrow> Retry \<Rightarrow> string \<Rightarrow> (nat \<Rightarrow> response) \<Rightarrow> nat \<Rightarrow> (raised + response) \<times> nat" where
  "urlopen lib retries method server k =
     (let resp = server k in
      if is_retry retries method (status_code resp) (has_retry_after resp)
      then (case increment retries of
              None \<Rightarrow>
                (if raise_on_status retries
                 then Inl (RequestException ''RetryError''
                            (''too many '' @ str_int (status_code resp) @ '' error responses''))
                 else Inr resp, Suc k)
            | Some new_retries \<Rightarrow>
                (case sleep_raises lib new_retries resp of
                   Some problem \<Rightarrow> (Inl (RequestException ''InvalidHeader'' problem), Suc k)
                 | None \<Rightarrow> urlopen lib new_retries method server (Suc k)))
      else (Inr resp, Suc k))"
  by pat_completeness auto
termination
  by (relation "measure (\<lambda>(lib, retries, method, server, k). nat (total retries))")
     (auto simp: increment_def is_exhausted_def Let_def split: if_splits)

declare urlopen.simps [simp del]

text \<open>
  \<^verbatim>\<open>session.request\<close> either raises or returns a response; the number beside it counts
  the HTTP attempts the transport made for the call.
\<close>

type_synonym session = "http_request \<Rightarrow> (raised + response) \<times> nat"

text \<open>
  \<^verbatim>\<open>Session.send\<close> up to the response of the adapter: the adapter and its connection are
  looked up; \<^verbatim>\<open>HTTPAdapter.send\<close> builds \<^verbatim>\<open>Timeout(connect=timeout, read=timeout)\<close>, which
  raises \<^verbatim>\<open>ValueError\<close> for a timeout that is not positive, outside every \<^verbatim>\<open>try\<close>; then
  \<^verbatim>\<open>urlopen\<close> parses its target, whose \<^verbatim>\<open>LocationParseError\<close> the adapter re-raises as it
  is, and runs the attempts. Nothing is sent before the attempts.
\<close>

definition timeout_message :: "int \<Rightarrow> string" where
  "timeout_message t =
     ''Attempted to set connect timeout to '' @ str_int t
       @ '', but the timeout cannot be set to a value less than or equal to 0.''"

definition adapter_send ::
  "library \<Rightarrow> CLIConfig \<Rightarrow> (http_request \<Rightarrow> nat \<Rightarrow> response) \<Rightarrow> session" where
  "adapter_send lib config server req =
     (case connection_for lib (req_url req) of
        Some e \<Rightarrow> (Inl e, 0)
      | None \<Rightarrow>
          if req_timeout req \<le> 0
          then (Inl (OtherException ''ValueError'' (timeout_message (req_timeout req))), 0)
          else (case parse_target lib (req_url req) of
                  Some problem \<Rightarrow> (Inl (OtherException ''LocationParseError'' problem), 0)
                | None \<Rightarrow> urlopen lib (retry_strategy config) (req_method req) (server req) 0))"

text \<open>
  Redirects (\<^verbatim>\<open>allow_redirects\<close> is left at its default). A response is followed when its
  status is one of \<^verbatim>\<open>REDIRECT_STATI\<close> and it has a non-empty \<^verbatim>\<open>Location\<close> header.
  \<^verbatim>\<open>rebuild_method\<close> works on the method in upper case, as \<^verbatim>\<open>Session.request\<close> sends it.
\<close>

definition REDIRECT_STATI :: "int list" where
  "REDIRECT_STATI = [301, 302, 303, 307, 308]"

definition DEFAULT_REDIRECT_LIMIT :: nat where
  "DEFAULT_REDIRECT_LIMIT = 30"

definition get_redirect_target :: "response \<Rightarrow> string option" where
  "get_redirect_target resp =
     (case location resp of
        None \<Rightarrow> None
      | Some url \<Rightarrow> if status_code resp \<in> set REDIRECT_STATI then Some url else None)"

definition rebuild_method :: "string \<Rightarrow> response \<Rightarrow> string" where
  "rebuild_method method resp =
     (let method = (if status_code resp = 303 \<and> method \<noteq> ''HEAD'' then ''GET'' else method);
          method = (if status_code resp = 302 \<and> method \<noteq> ''HEAD'' then ''GET'' else method);
          method = (if status_code resp = 301 \<and> method = ''POST'' then ''GET'' else method)
      in method)"

text \<open>
  \<^verbatim>\<open>resolve_redirects\<close>: \<open>fuel\<close> is the number of redirects that may still be followed,
  \<^verbatim>\<open>max_redirects\<close> at the start; a redirect beyond them raises \<^verbatim>\<open>TooManyRedirects\<close>. The
  request of a redirect has the rebuilt method and the new URL; it keeps its body only
  for the statuses 307 and 308. It is sent like the first one, and the attempts add up.
\<close>

fun resolve_redirects ::
  "library \<Rightarrow> CLIConfig \<Rightarrow> (http_request \<Rightarrow> nat \<Rightarrow> response) \<Rightarrow> nat \<Rightarrow> http_request \<Rightarrow> response
     \<Rightarrow> nat \<Rightarrow> (raised + response) \<times> nat" where
  "resolve_redirects lib config server 0 req resp attempts =
     (case get_redirect_target resp of
        None \<Rightarrow> (Inr resp, attempts)
      | Some url \<Rightarrow>
          if url = [] then (Inr resp, attempts)
          else (Inl (RequestException ''TooManyRedirects'' ''Exceeded 30 redirects.''), attempts))"
| "resolve_redirects lib config server (Suc fuel) req resp attempts =
     (case get_redirect_target resp of
        None \<Rightarrow> (Inr resp, attempts)
      | Some url \<Rightarrow>
          if url = [] then (Inr resp, attempts)
          else
            (let prepared_request =
                   \<lparr>req_method = rebuild_method (upper (req_method req)) resp,
                    req_url = redirect_url lib req url,
                    req_timeout = req_timeout req,
                    req_params = None,
                    req_json = (if status_code resp = 307 \<or> status_code resp = 308
                                then req_json req else None)\<rparr>
             in (case adapter_send lib config server prepared_request of
                   (Inl e, a) \<Rightarrow> (Inl e, attempts + a)
                 | (Inr next_resp, a) \<Rightarrow>
                     resolve_redirects lib config server fuel prepared_request next_resp
                       (attempts + a))))"

text \<open>
  \<^verbatim>\<open>session.request\<close> of a client built from \<open>config\<close>, against a server that answers
  attempt \<open>k\<close> of a request \<open>req\<close> with \<open>server req k\<close>: the request is prepared, sent
  through the adapter, and redirects are followed.
\<close>

definition session_request ::
  "library \<Rightarrow> CLIConfig \<Rightarrow> (http_request \<Rightarrow> nat \<Rightarrow> response) \<Rightarrow> session" where
  "session_request lib config server req =
     (case prepare_request lib req of
        Some e \<Rightarrow> (Inl e, 0)
      | None \<Rightarrow>
          (case adapter_send lib config server req of
             (Inl e, a) \<Rightarrow> (Inl e, a)
           | (Inr resp, a) \<Rightarrow>
               resolve_redirects lib config server DEFAULT_REDIRECT_LIMIT req resp a))"

text \<open>
  The request reaches the server: nothing is raised before the first attempt.
\<close>

definition is_sent :: "library \<Rightarrow> http_request \<Rightarrow> bool" where
  "is_sent lib req \<longleftrightarrow>
     prepare_request lib req = None \<and> connection_for lib (req_url req) = None
     \<and> 0 < req_timeout req \<and> parse_target lib (req_url req) = None"

subsection \<open>The dispatcher (\<^verbatim>\<open>BitingLipClient._make_request\<close>)\<close>

definition http_message :: "response \<Rightarrow> string" where
  "http_message resp = ''HTTP '' @ str_int (status_code resp) @ '': '' @ reason resp"

text \<open>
  \<^verbatim>\<open>_make_request(method, endpoint, **kwargs)\<close>. The \<^verbatim>\<open>except requests.RequestException\<close>
  clause catches the exceptions of the session that are of this class; every other
  exception of the session, the \<^verbatim>\<open>BitingLipAPIError\<close> and the \<^verbatim>\<open>AttributeError\<close> raised
  inside the \<^verbatim>\<open>try\<close> are of no caught class and leave the method. The verbose log line is
  left out.
\<close>

definition make_request ::
  "CLIConfig \<Rightarrow> session \<Rightarrow> string \<Rightarrow> string \<Rightarrow> (string \<times> string) list option \<Rightarrow> json option
     \<Rightarrow> (exn + json) \<times> nat" where
  "make_request config sess method endpoint params js =
     (let url = get_api_url config endpoint;
          (outcome, attempts) =
             sess \<lparr>req_method = method, req_url = url, req_timeout = api_timeout config,
                   req_params = params, req_json = js\<rparr>
      in (case outcome of
            Inl (RequestException cls e) \<Rightarrow>
              Inl (BitingLipAPIError (JStr (''Request failed: '' @ e)) None None)
          | Inl (OtherException cls e) \<Rightarrow> Inl (Propagated cls e)
          | Inr resp \<Rightarrow>
              if status_code resp = 200 then
                (case json_body resp of
                   Some v \<Rightarrow> Inr v
                 | None \<Rightarrow> Inr (JObj [(''message'', JStr (body_text resp))]))
              else if status_code resp = 201 then
                (case json_body resp of
                   Some v \<Rightarrow> Inr v
                 | None \<Rightarrow> Inr (JObj [(''message'', JStr ''Created successfully'')]))
              else if status_code resp = 204 then
                Inr (JObj [(''message'', JStr ''Success'')])
              else
                (case json_body resp of
                   Some error_data \<Rightarrow>
                     (case dict_get error_data ''detail'' (JStr (http_message resp)) of
                        Inl a \<Rightarrow> Inl a
                      | Inr msg \<Rightarrow>
                          Inl (BitingLipAPIError msg (Some (status_code resp)) (Some error_data)))
                 | None \<Rightarrow>
                     Inl (BitingLipAPIError (JStr (http_message resp))
                            (Some (status_code resp)) None)),
          attempts))"

text \<open>
  The request that \<^verbatim>\<open>_make_request\<close> hands to the session, named for the statements
  below.
\<close>

definition session_call ::
  "CLIConfig \<Rightarrow> string \<Rightarrow> string \<Rightarrow> (string \<times> string) list option \<Rightarrow> json option
     \<Rightarrow> http_request" where
  "session_call config method endpoint params js =
     \<lparr>req_method = method, req_url = get_api_url config endpoint,
      req_timeout = api_timeout config, req_params = params, req_json = js\<rparr>"

subsection \<open>Facades\<close>

definition list_models :: "CLIConfig \<Rightarrow> session \<Rightarrow> (string \<times> string) list \<Rightarrow> (exn + json) \<times> nat" where
  "list_models config sess params = make_request config sess ''GET'' ''/api/models'' (Some params) None"

definition get_model :: "CLIConfig \<Rightarrow> session \<Rightarrow> string \<Rightarrow> (exn + json) \<times> nat" where
  "get_model config sess model_id =
     make_request config sess ''GET'' (''/api/models/'' @ model_id) None None"

definition delete_model :: "CLIConfig \<Rightarrow> session \<Rightarrow> string \<Rightarrow> (exn + json) \<times> nat" where
  "delete_model config sess model_id =
     make_request config sess ''DELETE'' (''/api/models/'' @ model_id) None None"

definition get_worker :: "CLIConfig \<Rightarrow> session \<Rightarrow> string \<Rightarrow> (exn + json) \<times> nat" where
  "get_worker config sess worker_id =
     make_request config sess ''GET'' (''/api/workers/'' @ worker_id) None None"

definition register_worker :: "CLIConfig \<Rightarrow> session \<Rightarrow> json \<Rightarrow> (exn + json) \<times> nat" where
  "register_worker config sess worker_data =
     make_request config sess ''POST'' ''/api/workers'' None (Some worker_data)"

definition update_worker :: "CLIConfig \<Rightarrow> session \<Rightarrow> string \<Rightarrow> json \<Rightarrow> (exn + json) \<times> nat" where
  "update_worker config sess worker_id worker_data =
     make_request config sess ''PUT'' (''/api/workers/'' @ worker_id) None (Some worker_data)"

definition get_task :: "CLIConfig \<Rightarrow> session \<Rightarrow> string \<Rightarrow> (exn + json) \<times> nat" where
  "get_task config sess task_id =
     make_request config sess ''GET'' (''/api/tasks/'' @ task_id) None None"

subsection \<open>The \<^verbatim>\<open>workers register\<close> command (\<^verbatim>\<open>src/cli/commands/workers.py\<close>)\<close>

text \<open>
  What the command prints: \<^verbatim>\<open>success_message\<close>, \<^verbatim>\<open>error_message\<close>, the report of
  \<^verbatim>\<open>handle_api_error\<close>, the \<^verbatim>\<open>error_message\<close> of the last \<^verbatim>\<open>except\<close> clause (with the
  exception it prints), and the JSON echoed in verbose mode.
\<close>

datatype printed =
    SuccessMessage string
  | ErrorMessage string
  | HandledApiError exn
  | FailedToRegister exn
  | EchoJson json

text \<open>
  \<^verbatim>\<open>register_worker(ctx, name, worker_type, host, port, max_load, capabilities,
  metadata)\<close>; \<open>loads\<close> is \<^verbatim>\<open>json.loads\<close>, \<open>None\<close> when it raises \<^verbatim>\<open>json.JSONDecodeError\<close>.
  First the dictionary \<^verbatim>\<open>worker_data\<close> is filled: an option that is truthy adds its key,
  and an option that is no JSON prints its error and returns (\<open>Inl\<close>).
\<close>

definition worker_data_of ::
  "(string \<Rightarrow> json option) \<Rightarrow> string \<Rightarrow> string \<Rightarrow> string option \<Rightarrow> int option \<Rightarrow> int
     \<Rightarrow> string option \<Rightarrow> string option \<Rightarrow> string + (string \<times> json) list" where
  "worker_data_of loads name worker_type host port max_load capabilities metadata =
     (let worker_data =
            [(''name'', JStr name), (''type'', JStr worker_type),
             (''max_load'', JInt max_load), (''status'', JStr ''available'')];
          worker_data = (if truthy_str host
                         then worker_data @ [(''host'', JStr (the host))] else worker_data);
          worker_data = (if truthy_int port
                         then worker_data @ [(''port'', JInt (the port))] else worker_data)
      in if truthy_str capabilities \<and> loads (the capabilities) = None
         then Inl ''Invalid JSON in capabilities''
         else
           (let worker_data = (if truthy_str capabilities
                               then worker_data @ [(''capabilities'', the (loads (the capabilities)))]
                               else worker_data)
            in if truthy_str metadata \<and> loads (the metadata) = None
               then Inl ''Invalid JSON in metadata''
               else Inr (if truthy_str metadata
                         then worker_data @ [(''metadata'', the (loads (the metadata)))]
                         else worker_data)))"

text \<open>
  Then the client is called and the outcome reported. The result is what was printed,
  with the HTTP attempts made.
\<close>

definition register_worker_command ::
  "CLIConfig \<Rightarrow> session \<Rightarrow> (string \<Rightarrow> json option) \<Rightarrow> string \<Rightarrow> string \<Rightarrow> string option
     \<Rightarrow> int option \<Rightarrow> int \<Rightarrow> string option \<Rightarrow> string option \<Rightarrow> printed list \<times> nat" where
  "register_worker_command config sess loads name worker_type host port max_load
       capabilities metadata =
     (case worker_data_of loads name worker_type host port max_load capabilities metadata of
        Inl problem \<Rightarrow> ([ErrorMessage problem], 0)
      | Inr worker_data \<Rightarrow>
          (let (result, attempts) = register_worker config sess (JObj worker_data)
           in (case result of
                 Inr payload \<Rightarrow>
                   ([SuccessMessage (''Worker '' @ [CHR 0x27] @ name @ [CHR 0x27]
                                      @ '' registered successfully'')]
                    @ (if verbose config then [EchoJson payload] else []), attempts)
               | Inl (BitingLipAPIError m sc r) \<Rightarrow>
                   ([HandledApiError (BitingLipAPIError m sc r)], attempts)
               | Inl e \<Rightarrow> ([FailedToRegister e], attempts))))"

subsection \<open>Example configurations, libraries, servers and sessions\<close>

text \<open>
  The configuration of an empty environment; the same with another base URL; the same
  with the timeout 0, as \<^verbatim>\<open>BITINGLIP_API_TIMEOUT=0\<close> sets it.
\<close>

definition default_config :: CLIConfig where
  "default_config = CLIConfig_init empty_environment"

definition host_config :: CLIConfig where
  "host_config = default_config\<lparr>api_url := ''http://host:8080''\<rparr>"

definition zero_timeout_config :: CLIConfig where
  "zero_timeout_config = default_config\<lparr>api_timeout := 0\<rparr>"

text \<open>
  The library parameters for the examples, whose URLs (\<^verbatim>\<open>http://localhost:8080/api/...\<close>)
  and JSON values requests and urllib3 accept: nothing is raised, and the URL of a
  redirect is its \<^verbatim>\<open>Location\<close>. A \<^verbatim>\<open>Retry-After\<close> header is accepted when it is made of
  digits.
\<close>

definition digits_only :: "string \<Rightarrow> bool" where
  "digits_only v \<longleftrightarrow> v \<noteq> [] \<and> list_all (\<lambda>c. c \<in> set ''0123456789'') v"

definition lenient :: library where
  "lenient =
     \<lparr>prepare_request = (\<lambda>req. None), connection_for = (\<lambda>url. None),
      parse_target = (\<lambda>url. None), parse_retry_after = digits_only,
      redirect_url = (\<lambda>req url. url)\<rparr>"

text \<open>A server that answers every attempt of every request with the same response.\<close>

definition answering :: "response \<Rightarrow> http_request \<Rightarrow> nat \<Rightarrow> response" where
  "answering resp req k = resp"

definition unavailable :: response where
  "unavailable =
     \<lparr>status_code = 503, reason = ''Service Unavailable'', body_text = ''unavailable'',
      json_body = None, retry_after = None, location = None\<rparr>"

definition unavailable_soon :: response where
  "unavailable_soon = unavailable\<lparr>retry_after := Some ''soon''\<rparr>"

definition model_not_found :: response where
  "model_not_found =
     \<lparr>status_code = 404, reason = ''Not Found'', body_text = ''model not found'',
      json_body = Some (JObj [(''detail'', JStr ''model not found'')]), retry_after = None,
      location = None\<rparr>"

definition models_listing :: response where
  "models_listing =
     \<lparr>status_code = 200, reason = ''OK'', body_text = ''models'',
      json_body = Some (JObj [(''models'', JArr [])]), retry_after = None, location = None\<rparr>"

text \<open>A response with a body that is no JSON, and an error whose body is a JSON array.\<close>

definition plain_text :: "int \<Rightarrow> response" where
  "plain_text code =
     \<lparr>status_code = code, reason = ''OK'', body_text = ''pong'',
      json_body = None, retry_after = None, location = None\<rparr>"

definition array_error :: response where
  "array_error =
     \<lparr>status_code = 404, reason = ''Not Found'', body_text = ''[]'',
      json_body = Some (JArr []), retry_after = None, location = None\<rparr>"

text \<open>
  A gateway that knows one route: a \<^verbatim>\<open>POST\<close> to \<^verbatim>\<open>/api/workers\<close> is answered with 201 and
  the JSON it was sent, anything else with 404.
\<close>

definition workers_gateway :: "http_request \<Rightarrow> nat \<Rightarrow> response" where
  "workers_gateway req k =
     (if req_method req = ''POST'' \<and> req_url req = ''http://localhost:8080/api/workers''
      then \<lparr>status_code = 201, reason = ''Created'', body_text = ''created'',
            json_body = req_json req, retry_after = None, location = None\<rparr>
      else model_not_found)"

text \<open>A session whose every request is refused by the host; a decoder that accepts nothing.\<close>

definition loads_nothing :: "string \<Rightarrow> json option" where
  "loads_nothing s = None"

definition refusing_session :: session where
  "refusing_session req = (Inl (RequestException ''ConnectionError'' ''Connection refused''), 1)"

section \<open>Properties\<close>

subsection \<open>Stripping separators\<close>

lemma dropWhile_replicate_same:
  "dropWhile (\<lambda>x. x = c) (replicate i c @ s) = dropWhile (\<lambda>x. x = c) s"
  by (induction i) simp_all

lemma rstrip_append_sep: "rstrip (s @ replicate i c) c = rstrip s c"
  by (simp add: rstrip_def dropWhile_replicate_same)

lemma lstrip_prepend_sep: "lstrip (replicate j c @ s) c = lstrip s c"
  by (simp add: lstrip_def dropWhile_replicate_same)

lemma rstrip_no_trailing: "rstrip s c \<noteq> [] \<Longrightarrow> last (rstrip s c) \<noteq> c"
proof -
  assume ne: "rstrip s c \<noteq> []"
  then have "dropWhile (\<lambda>x. x = c) (rev s) \<noteq> []"
    by (simp add: rstrip_def)
  then have "hd (dropWhile (\<lambda>x. x = c) (rev s)) \<noteq> c"
    using hd_dropWhile [of "\<lambda>x. x = c" "rev s"] by simp
  then show ?thesis
    using ne by (simp add: rstrip_def last_rev)
qed

lemma lstrip_no_leading: "lstrip s c \<noteq> [] \<Longrightarrow> hd (lstrip s c) \<noteq> c"
  using hd_dropWhile [of "\<lambda>x. x = c" s] by (simp add: lstrip_def)

subsection \<open>Joining the base URL and the endpoint\<close>

text \<open>
  Claim C5, as stated, at the empty path: with the base \<^verbatim>\<open>http://host:8080\<close>, the path
  \<^verbatim>\<open>/\<close> (the empty path carrying a separator) and the empty path give different URLs,
  \<^verbatim>\<open>http://host:8080/\<close> and \<^verbatim>\<open>http://host:8080\<close>: an empty endpoint is falsy and takes the
  branch that appends no separator.
\<close>

theorem get_api_url_empty_path_differs:
  "get_api_url host_config ''/'' \<noteq> get_api_url host_config ''''"
  by (simp add: get_api_url_def host_config_def rstrip_def lstrip_def)

text \<open>
  Claim C5, amended. Trailing separators on the base URL never change the result. For
  every non-empty path, leading separators on the path do not change it either, and the
  result is the stripped base, one separator and the stripped path: the stripped base
  does not end with a separator and the stripped path does not begin with one. For the
  empty path the result is the stripped base alone.
\<close>

theorem get_api_url_separators:
  "get_api_url (config\<lparr>api_url := api_url config @ replicate i (CHR ''/'')\<rparr>) endpoint
     = get_api_url config endpoint
   \<and> (endpoint \<noteq> [] \<longrightarrow>
        get_api_url config (replicate j (CHR ''/'') @ endpoint) = get_api_url config endpoint
      \<and> get_api_url config endpoint
          = rstrip (api_url config) (CHR ''/'') @ ''/'' @ lstrip endpoint (CHR ''/'')
      \<and> (rstrip (api_url config) (CHR ''/'') = []
           \<or> last (rstrip (api_url config) (CHR ''/'')) \<noteq> CHR ''/'')
      \<and> (lstrip endpoint (CHR ''/'') = [] \<or> hd (lstrip endpoint (CHR ''/'')) \<noteq> CHR ''/''))
   \<and> (endpoint = [] \<longrightarrow> get_api_url config endpoint = rstrip (api_url config) (CHR ''/''))"
proof -
  have base: "get_api_url (config\<lparr>api_url := api_url config @ replicate i (CHR ''/'')\<rparr>) endpoint
     = get_api_url config endpoint"
    by (simp add: get_api_url_def rstrip_append_sep)
  have path: "get_api_url config (replicate j (CHR ''/'') @ endpoint) = get_api_url config endpoint"
    if "endpoint \<noteq> []"
    using that by (simp add: get_api_url_def lstrip_prepend_sep)
  have shape: "get_api_url config endpoint
          = rstrip (api_url config) (CHR ''/'') @ ''/'' @ lstrip endpoint (CHR ''/'')"
    if "endpoint \<noteq> []"
    using that by (simp add: get_api_url_def)
  have emp: "get_api_url config endpoint = rstrip (api_url config) (CHR ''/'')" if "endpoint = []"
    using that by (simp add: get_api_url_def)
  show ?thesis
    using base path shape emp rstrip_no_trailing [of "api_url config" "CHR ''/''"]
      lstrip_no_leading [of endpoint "CHR ''/''"]
    by blast
qed

text \<open>
  The instance of the specification: \<^verbatim>\<open>/api/models\<close> and \<^verbatim>\<open>api/models\<close> joined to
  \<^verbatim>\<open>http://host:8080\<close>, with and without a trailing separator on the base.
\<close>

theorem get_api_url_separators_witness:
  "''api/models'' \<noteq> []
   \<and> get_api_url host_config ''/api/models'' = get_api_url host_config ''api/models''
   \<and> get_api_url host_config ''api/models'' = ''http://host:8080/api/models''
   \<and> get_api_url (host_config\<lparr>api_url := ''http://host:8080/''\<rparr>) ''api/models''
       = ''http://host:8080/api/models''
   \<and> get_api_url (host_config\<lparr>api_url := ''http://host:8080/''\<rparr>) [] = ''http://host:8080''"
  using get_api_url_separators [of host_config 1 "''api/models''" 1]
    get_api_url_separators [of host_config 1 "[]" 1]
  by (simp add: host_config_def default_config_def CLIConfig_init_def empty_environment_def
      rstrip_def lstrip_def)

subsection \<open>The retry loop\<close>

lemma is_exhausted_iff: "is_exhausted r \<longleftrightarrow> total r < 0"
  by (simp add: is_exhausted_def)

lemma increment_eq:
  "increment r = (if total r \<le> 0 then None else Some (r\<lparr>total := total r - 1\<rparr>))"
  by (auto simp: increment_def is_exhausted_iff Let_def)

lemma is_method_retryable_total [simp]:
  "is_method_retryable (r\<lparr>total := t\<rparr>) m = is_method_retryable r m"
  by (simp add: is_method_retryable_def)

lemma sleep_raises_total [simp]:
  "sleep_raises lib (r\<lparr>total := t\<rparr>) resp = sleep_raises lib r resp"
  by (simp add: sleep_raises_def)

lemma urlopen_no_retry:
  "\<not> is_retry r m (status_code (server k)) (has_retry_after (server k))
     \<Longrightarrow> urlopen lib r m server k = (Inr (server k), Suc k)"
  by (simp add: urlopen.simps Let_def)

lemma is_retry_forced:
  "is_method_retryable r m \<Longrightarrow> s \<in> set (status_forcelist r) \<Longrightarrow> is_retry r m s h"
  by (auto simp: is_retry_def)


text \<open>A header that cannot be parsed ends the loop after the attempt it came with.\<close>

lemma urlopen_invalid_header:
  "0 < total r \<Longrightarrow> is_method_retryable r m \<Longrightarrow> status_code (server k) \<in> set (status_forcelist r)
     \<Longrightarrow> sleep_raises lib r (server k) = Some problem
     \<Longrightarrow> urlopen lib r m server k = (Inl (RequestException ''InvalidHeader'' problem), Suc k)"
  by (simp add: urlopen.simps [of lib r] increment_eq is_retry_forced Let_def)

lemma not_retried_status:
  "s \<in> {400, 401, 403, 404, 409, 422} \<Longrightarrow> \<not> is_retry (retry_strategy config) m s h"
  by (auto simp: is_retry_def retry_strategy_def RETRY_AFTER_STATUS_CODES_def)

lemma not_retried_success:
  "s \<in> {200, 201, 204} \<Longrightarrow> \<not> is_retry (retry_strategy config) m s h"
  by (auto simp: is_retry_def retry_strategy_def RETRY_AFTER_STATUS_CODES_def)



subsection \<open>The session\<close>

lemma not_redirect_status:
  "status_code resp \<notin> set REDIRECT_STATI \<Longrightarrow> get_redirect_target resp = None"
  by (simp add: get_redirect_target_def split: option.splits)

lemma resolve_redirects_final:
  "get_redirect_target resp = None
     \<Longrightarrow> resolve_redirects lib config server fuel req resp a = (Inr resp, a)"
  by (cases fuel) simp_all

lemma session_request_not_sent:
  "\<not> is_sent lib req \<Longrightarrow>
     snd (session_request lib config server req) = 0
     \<and> (\<exists>e. fst (session_request lib config server req) = Inl e)"
  by (auto simp: is_sent_def session_request_def adapter_send_def split: option.splits)

lemma session_request_sent:
  "is_sent lib req \<Longrightarrow>
     session_request lib config server req
       = (case urlopen lib (retry_strategy config) (req_method req) (server req) 0 of
            (Inl e, a) \<Rightarrow> (Inl e, a)
          | (Inr resp, a) \<Rightarrow>
              resolve_redirects lib config server DEFAULT_REDIRECT_LIMIT req resp a)"
  by (simp add: is_sent_def session_request_def adapter_send_def)

lemma session_request_once:
  "is_sent lib req
   \<Longrightarrow> \<not> is_retry (retry_strategy config) (req_method req) (status_code (server req 0))
        (has_retry_after (server req 0))
   \<Longrightarrow> get_redirect_target (server req 0) = None
   \<Longrightarrow> session_request lib config server req = (Inr (server req 0), 1)"
  by (simp add: session_request_sent urlopen_no_retry resolve_redirects_final)


lemma is_sent_lenient:
  "is_sent lenient req \<longleftrightarrow> 0 < req_timeout req"
  by (simp add: is_sent_def lenient_def)

lemma session_request_answering:
  "is_sent lib req
   \<Longrightarrow> \<not> is_retry (retry_strategy config) (req_method req) (status_code resp) (has_retry_after resp)
   \<Longrightarrow> get_redirect_target resp = None
   \<Longrightarrow> session_request lib config (answering resp) req = (Inr resp, 1)"
  using session_request_once [of lib req config "answering resp"] by (simp add: answering_def)

subsection \<open>The dispatcher, case by case\<close>

lemma make_request_attempts:
  "snd (make_request config sess meth endpoint params js)
     = snd (sess (session_call config meth endpoint params js))"
  by (simp add: make_request_def session_call_def split: prod.splits)

lemma make_request_raised:
  "sess (session_call config meth endpoint params js) = (Inl (RequestException cls e), a)
   \<Longrightarrow> make_request config sess meth endpoint params js
         = (Inl (BitingLipAPIError (JStr (''Request failed: '' @ e)) None None), a)"
  by (simp add: make_request_def session_call_def)

lemma make_request_propagated:
  "sess (session_call config meth endpoint params js) = (Inl (OtherException cls e), a)
   \<Longrightarrow> make_request config sess meth endpoint params js = (Inl (Propagated cls e), a)"
  by (simp add: make_request_def session_call_def)

lemma make_request_answered:
  "sess (session_call config meth endpoint params js) = (Inr resp, a)
   \<Longrightarrow> make_request config sess meth endpoint params js
         = (if status_code resp = 200 then
              (case json_body resp of
                 Some v \<Rightarrow> Inr v
               | None \<Rightarrow> Inr (JObj [(''message'', JStr (body_text resp))]))
            else if status_code resp = 201 then
              (case json_body resp of
                 Some v \<Rightarrow> Inr v
               | None \<Rightarrow> Inr (JObj [(''message'', JStr ''Created successfully'')]))
            else if status_code resp = 204 then
              Inr (JObj [(''message'', JStr ''Success'')])
            else
              (case json_body resp of
                 Some error_data \<Rightarrow>
                   (case dict_get error_data ''detail'' (JStr (http_message resp)) of
                      Inl a \<Rightarrow> Inl a
                    | Inr msg \<Rightarrow>
                        Inl (BitingLipAPIError msg (Some (status_code resp)) (Some error_data)))
               | None \<Rightarrow>
                   Inl (BitingLipAPIError (JStr (http_message resp))
                          (Some (status_code resp)) None)), a)"
  by (simp add: make_request_def session_call_def)

lemma dict_get_raises: "dict_get v key dflt \<noteq> Inl (BitingLipAPIError m sc body)"
  by (cases v) simp_all

lemma dict_get_propagates: "dict_get v key dflt \<noteq> Inl (Propagated cls e)"
  by (cases v) simp_all


text \<open>
  The error branch by the kind of body: no JSON, a JSON object, and any other JSON value.
\<close>

lemma error_response_not_json:
  assumes "sess (session_call config meth endpoint params js) = (Inr resp, a)"
    and "status_code resp \<notin> {200, 201, 204}" and "json_body resp = None"
  shows "fst (make_request config sess meth endpoint params js)
           = Inl (BitingLipAPIError (JStr (''HTTP '' @ str_int (status_code resp) @ '': '' @ reason resp))
                    (Some (status_code resp)) None)"
  using make_request_answered [of sess config meth endpoint params js resp a] assms
  by (simp add: http_message_def)

lemma error_response_object:
  assumes "sess (session_call config meth endpoint params js) = (Inr resp, a)"
    and "status_code resp \<notin> {200, 201, 204}" and "json_body resp = Some (JObj items)"
  shows "fst (make_request config sess meth endpoint params js)
           = Inl (BitingLipAPIError
                    (case map_of items ''detail'' of
                       Some d \<Rightarrow> d
                     | None \<Rightarrow> JStr (''HTTP '' @ str_int (status_code resp) @ '': '' @ reason resp))
                    (Some (status_code resp)) (Some (JObj items)))"
  using make_request_answered [of sess config meth endpoint params js resp a] assms
  by (simp add: http_message_def split: option.splits)

lemma error_response_not_object:
  assumes "sess (session_call config meth endpoint params js) = (Inr resp, a)"
    and "status_code resp \<notin> {200, 201, 204}" and "json_body resp = Some v"
    and "\<forall>items. v \<noteq> JObj items"
  shows "fst (make_request config sess meth endpoint params js) = Inl (AttributeError (type_name v))"
  using make_request_answered [of sess config meth endpoint params js resp a] assms
  by (cases v) (simp_all add: http_message_def)

lemma get_model_not_found:
  "get_model default_config (session_request lenient default_config (answering model_not_found)) ''m1''
     = (Inl (BitingLipAPIError (JStr ''model not found'') (Some 404)
              (Some (JObj [(''detail'', JStr ''model not found'')]))), 1)"
  by code_simp

subsection \<open>Attempts on status 503\<close>




text \<open>
  Why the header is excluded: a \<^verbatim>\<open>GET\<close> answered 503 with \<^verbatim>\<open>Retry-After: soon\<close> is attempted
  once, and the error has no status.
\<close>

lemma malformed_retry_after_stops:
  "list_models default_config
       (session_request lenient default_config (answering unavailable_soon)) []
     = (Inl (BitingLipAPIError (JStr ''Request failed: Invalid Retry-After header: soon'')
              None None), 1)"
  by code_simp

subsection \<open>Attempts on a client error\<close>

text \<open>
  Claim C2. For every configuration, every request and every server whose answer to the
  first attempt has a status in 400, 401, 403, 404, 409, 422, the gateway client makes
  exactly one HTTP attempt: the retry loop returns after its first attempt, and the
  client makes this one attempt whenever the transport sends the request at all (when it
  raises before sending, there is no response and no attempt).
\<close>

theorem client_error_attempted_once:
  assumes "status_code (server (session_call config meth endpoint params js) 0)
             \<in> {400, 401, 403, 404, 409, 422}"
  shows "snd (urlopen lib (retry_strategy config) meth
                (server (session_call config meth endpoint params js)) 0) = 1
       \<and> snd (make_request config (session_request lib config server) meth endpoint params js)
           = (if is_sent lib (session_call config meth endpoint params js) then 1 else 0)"
proof -
  let ?req = "session_call config meth endpoint params js"
  have m: "req_method ?req = meth" by (simp add: session_call_def)
  have no_retry: "\<not> is_retry (retry_strategy config) meth (status_code (server ?req 0))
        (has_retry_after (server ?req 0))"
    using assms by (simp add: not_retried_status)
  have "status_code (server ?req 0) \<notin> set REDIRECT_STATI"
    using assms by (auto simp: REDIRECT_STATI_def)
  then have final: "get_redirect_target (server ?req 0) = None"
    by (rule not_redirect_status)
  have sent: "session_request lib config server ?req = (Inr (server ?req 0), 1)"
    if "is_sent lib ?req"
    using session_request_once [of lib ?req config server] that no_retry final m by simp
  have unsent: "snd (session_request lib config server ?req) = 0" if "\<not> is_sent lib ?req"
    using session_request_not_sent [OF that] by simp
  show ?thesis
    using sent unsent no_retry by (simp add: make_request_attempts urlopen_no_retry)
qed

theorem client_error_attempted_once_witness:
  "status_code (answering model_not_found
       (session_call default_config ''GET'' ''/api/models/m1'' None None) 0)
     \<in> {400, 401, 403, 404, 409, 422}
   \<and> is_sent lenient (session_call default_config ''GET'' ''/api/models/m1'' None None)
   \<and> snd (get_model default_config
            (session_request lenient default_config (answering model_not_found)) ''m1'') = 1"
  using client_error_attempted_once
    [of "answering model_not_found" default_config "''GET''" "''/api/models/m1''" None None
      lenient]
  by (simp add: answering_def model_not_found_def get_model_def is_sent_lenient
      session_call_def default_config_def CLIConfig_init_def empty_environment_def)

subsection \<open>Exceptions of the transport\<close>

text \<open>
  Claim C3, as stated, at a timeout of 0: \<^verbatim>\<open>list_models\<close> with the configuration that
  \<^verbatim>\<open>BITINGLIP_API_TIMEOUT=0\<close> gives raises the \<^verbatim>\<open>ValueError\<close> of urllib3's \<^verbatim>\<open>Timeout\<close>, which
  is no \<^verbatim>\<open>RequestException\<close>: it leaves the dispatcher as it is, before any attempt.
\<close>

theorem timeout_value_error_propagates:
  "list_models zero_timeout_config
       (session_request lenient zero_timeout_config (answering models_listing)) []
     = (Inl (Propagated ''ValueError''
              (''Attempted to set connect timeout to 0, but the timeout cannot be set ''
               @ ''to a value less than or equal to 0.'')), 0)"
  by code_simp

text \<open>
  Claim C3, amended. For every request, when the session raises a
  \<^verbatim>\<open>requests.RequestException\<close> (a timeout, a refused connection, a failed name
  resolution), the dispatcher raises a \<^verbatim>\<open>BitingLipAPIError\<close> without status code and
  without body, whose message is \<^verbatim>\<open>Request failed: \<close> followed by the text of the
  exception. An exception of the session leaves the dispatcher unchanged only if it is
  no \<^verbatim>\<open>RequestException\<close>.
\<close>

theorem transport_exception_normalized:
  "(sess (session_call config meth endpoint params js) = (Inl (RequestException cls e), a) \<longrightarrow>
      fst (make_request config sess meth endpoint params js)
        = Inl (BitingLipAPIError (JStr (''Request failed: '' @ e)) None None))
   \<and> (fst (make_request config sess meth endpoint params js) = Inl (Propagated cls' e') \<longrightarrow>
      (\<exists>a'. sess (session_call config meth endpoint params js)
               = (Inl (OtherException cls' e'), a')))"
proof -
  obtain outcome n where s: "sess (session_call config meth endpoint params js) = (outcome, n)"
    by (cases "sess (session_call config meth endpoint params js)") auto
  have second: "\<exists>a'. sess (session_call config meth endpoint params js)
               = (Inl (OtherException cls' e'), a')"
    if p: "fst (make_request config sess meth endpoint params js) = Inl (Propagated cls' e')"
  proof (cases outcome)
    case (Inl x)
    show ?thesis
    proof (cases x)
      case (RequestException c t)
      with Inl s p show ?thesis
        using make_request_raised [of sess config meth endpoint params js c t n] by simp
    next
      case (OtherException c t)
      with Inl s p show ?thesis
        using make_request_propagated [of sess config meth endpoint params js c t n] by simp
    qed
  next
    case (Inr resp)
    with s p show ?thesis
      using make_request_answered [of sess config meth endpoint params js resp n]
      by (auto simp: dict_get_propagates split: if_splits option.splits sum.splits)
  qed
  show ?thesis
    using make_request_raised [of sess config meth endpoint params js cls e a] second by simp
qed

theorem transport_exception_normalized_witness:
  "refusing_session (session_call default_config ''GET'' ''/api/models'' (Some []) None)
      = (Inl (RequestException ''ConnectionError'' ''Connection refused''), 1)
   \<and> fst (list_models default_config refusing_session [])
       = Inl (BitingLipAPIError (JStr ''Request failed: Connection refused'') None None)
   \<and> fst (list_models zero_timeout_config
            (session_request lenient zero_timeout_config (answering models_listing)) [])
       = Inl (Propagated ''ValueError'' (timeout_message 0))
   \<and> (\<exists>a'. session_request lenient zero_timeout_config (answering models_listing)
               (session_call zero_timeout_config ''GET'' ''/api/models'' (Some []) None)
             = (Inl (OtherException ''ValueError'' (timeout_message 0)), a'))"
  using transport_exception_normalized
      [of refusing_session default_config "''GET''" "''/api/models''" "Some []" None
        "''ConnectionError''" "''Connection refused''" 1]
    transport_exception_normalized
      [of "session_request lenient zero_timeout_config (answering models_listing)"
        zero_timeout_config "''GET''" "''/api/models''" "Some []" None _ _ _
        "''ValueError''" "timeout_message 0"]
  by (simp add: refusing_session_def list_models_def make_request_def session_request_def
      adapter_send_def lenient_def zero_timeout_config_def)

subsection \<open>Error responses\<close>

text \<open>
  Claim C4 at a 404 response whose body is the JSON array \<^verbatim>\<open>[]\<close>: the dispatcher calls
  \<^verbatim>\<open>.get\<close> on the decoded list and an \<^verbatim>\<open>AttributeError\<close> leaves \<^verbatim>\<open>_make_request\<close>; no
  \<^verbatim>\<open>BitingLipAPIError\<close> with status 404 is produced. For a body that is no JSON or a
  JSON object the claim holds (\<open>error_response_not_json\<close>, \<open>error_response_object\<close>,
  \<open>get_model_not_found\<close>).
\<close>

theorem error_body_array_raises_attribute_error:
  "get_model default_config (session_request lenient default_config (answering array_error)) ''m1''
     = (Inl (AttributeError ''list''), 1)"
  by code_simp

subsection \<open>Successful responses\<close>

text \<open>
  Claim C6. For every response of status 200: when the body is no valid JSON the
  dispatcher returns the payload \<^verbatim>\<open>{"message": <raw body text>}\<close>, and when it is valid
  JSON the dispatcher returns the decoded value. In both cases it returns (\<open>Inr\<close>).
\<close>

theorem ok_response_payload:
  assumes "sess (session_call config method endpoint params js) = (Inr resp, a)"
    and "status_code resp = 200"
  shows "(json_body resp = None \<longrightarrow>
            fst (make_request config sess method endpoint params js)
              = Inr (JObj [(''message'', JStr (body_text resp))]))
       \<and> (\<forall>v. json_body resp = Some v \<longrightarrow>
            fst (make_request config sess method endpoint params js) = Inr v)"
  using make_request_answered [of sess config "method" endpoint params js resp a] assms by simp

theorem ok_response_payload_witness:
  "session_request lenient default_config (answering (plain_text 200))
       (session_call default_config ''GET'' ''/api/health'' None None) = (Inr (plain_text 200), 1)
   \<and> status_code (plain_text 200) = 200 \<and> json_body (plain_text 200) = None
   \<and> fst (make_request default_config
            (session_request lenient default_config (answering (plain_text 200)))
            ''GET'' ''/api/health'' None None) = Inr (JObj [(''message'', JStr ''pong'')])
   \<and> session_request lenient default_config (answering models_listing)
       (session_call default_config ''GET'' ''/api/models'' None None) = (Inr models_listing, 1)
   \<and> status_code models_listing = 200
   \<and> json_body models_listing = Some (JObj [(''models'', JArr [])])
   \<and> fst (make_request default_config
            (session_request lenient default_config (answering models_listing))
            ''GET'' ''/api/models'' None None) = Inr (JObj [(''models'', JArr [])])"
  using ok_response_payload
      [of "session_request lenient default_config (answering (plain_text 200))" default_config
        "''GET''" "''/api/health''" None None "plain_text 200" 1]
    ok_response_payload
      [of "session_request lenient default_config (answering models_listing)" default_config
        "''GET''" "''/api/models''" None None models_listing 1]
  by (simp add: session_request_answering not_retried_success plain_text_def models_listing_def
      is_sent_lenient session_call_def default_config_def CLIConfig_init_def
      empty_environment_def get_redirect_target_def)

text \<open>
  Claim C7. For every response of status 204 the dispatcher returns
  \<^verbatim>\<open>{"message": "Success"}\<close>, whatever the body: neither \<open>body_text\<close> nor \<open>json_body\<close>
  occurs in the result. For every response of status 201 whose body fails to decode it
  returns \<^verbatim>\<open>{"message": "Created successfully"}\<close>.
\<close>

theorem no_content_and_created_payload:
  assumes "sess (session_call config method endpoint params js) = (Inr resp, a)"
  shows "(status_code resp = 204 \<longrightarrow>
            fst (make_request config sess method endpoint params js)
              = Inr (JObj [(''message'', JStr ''Success'')]))
       \<and> (status_code resp = 201 \<and> json_body resp = None \<longrightarrow>
            fst (make_request config sess method endpoint params js)
              = Inr (JObj [(''message'', JStr ''Created successfully'')]))"
  using make_request_answered [of sess config "method" endpoint params js resp a] assms by simp

theorem no_content_and_created_payload_witness:
  "session_request lenient default_config (answering (plain_text 204))
       (session_call default_config ''DELETE'' ''/api/models/m1'' None None)
     = (Inr (plain_text 204), 1)
   \<and> status_code (plain_text 204) = 204
   \<and> fst (delete_model default_config
            (session_request lenient default_config (answering (plain_text 204)))
            ''m1'') = Inr (JObj [(''message'', JStr ''Success'')])
   \<and> session_request lenient default_config (answering (plain_text 201))
       (session_call default_config ''POST'' ''/api/workers'' None (Some (JObj [])))
     = (Inr (plain_text 201), 1)
   \<and> status_code (plain_text 201) = 201 \<and> json_body (plain_text 201) = None
   \<and> fst (register_worker default_config
            (session_request lenient default_config (answering (plain_text 201)))
            (JObj [])) = Inr (JObj [(''message'', JStr ''Created successfully'')])"
  using no_content_and_created_payload
      [of "session_request lenient default_config (answering (plain_text 204))" default_config
        "''DELETE''" "''/api/models/m1''" None None "plain_text 204" 1]
    no_content_and_created_payload
      [of "session_request lenient default_config (answering (plain_text 201))" default_config
        "''POST''" "''/api/workers''" None "Some (JObj [])" "plain_text 201" 1]
  by (simp add: session_request_answering not_retried_success plain_text_def
      delete_model_def register_worker_def is_sent_lenient session_call_def default_config_def
      CLIConfig_init_def empty_environment_def get_redirect_target_def)

subsection \<open>The fields of the error\<close>

text \<open>
  Claim C10. Whenever the dispatcher raises a \<^verbatim>\<open>BitingLipAPIError\<close>, its status code and
  its body are both absent exactly when the session raised an exception; and when the
  session returned a response, the status code is present and is that of the response.
\<close>

theorem api_error_fields:
  assumes "sess (session_call config method endpoint params js) = (outcome, a)"
    and "fst (make_request config sess method endpoint params js) = Inl (BitingLipAPIError m sc body)"
  shows "((sc = None \<and> body = None) \<longleftrightarrow> (\<exists>e. outcome = Inl e))
       \<and> (\<forall>resp. outcome = Inr resp \<longrightarrow> sc = Some (status_code resp))"
proof (cases outcome)
  case (Inl x)
  show ?thesis
  proof (cases x)
    case (RequestException c t)
    with Inl show ?thesis
      using make_request_raised [of sess config "method" endpoint params js c t a] assms by simp
  next
    case (OtherException c t)
    with Inl show ?thesis
      using make_request_propagated [of sess config "method" endpoint params js c t a] assms
      by simp
  qed
next
  case (Inr resp)
  then show ?thesis
    using make_request_answered [of sess config "method" endpoint params js resp a] assms
    by (auto simp: dict_get_raises split: if_splits option.splits sum.splits)
qed

theorem api_error_fields_witness:
  "refusing_session (session_call default_config ''GET'' ''/api/models/m1'' None None)
      = (Inl (RequestException ''ConnectionError'' ''Connection refused''), 1)
   \<and> fst (get_model default_config refusing_session ''m1'')
       = Inl (BitingLipAPIError (JStr ''Request failed: Connection refused'') None None)
   \<and> session_request lenient default_config (answering model_not_found)
        (session_call default_config ''GET'' ''/api/models/m1'' None None)
      = (Inr model_not_found, 1)
   \<and> fst (get_model default_config
            (session_request lenient default_config (answering model_not_found)) ''m1'')
       = Inl (BitingLipAPIError (JStr ''model not found'') (Some 404)
              (Some (JObj [(''detail'', JStr ''model not found'')])))
   \<and> Some 404 = Some (status_code model_not_found)"
  using api_error_fields
      [of refusing_session default_config "''GET''" "''/api/models/m1''" None None
        "Inl (RequestException ''ConnectionError'' ''Connection refused'')" 1
        "JStr ''Request failed: Connection refused''" None None]
    api_error_fields
      [of "session_request lenient default_config (answering model_not_found)" default_config
        "''GET''" "''/api/models/m1''" None None "Inr model_not_found" 1
        "JStr ''model not found''" "Some 404" "Some (JObj [(''detail'', JStr ''model not found'')])"]
    get_model_not_found
  by (simp add: refusing_session_def get_model_def make_request_raised
      session_request_answering not_retried_status model_not_found_def is_sent_lenient
      session_call_def default_config_def CLIConfig_init_def empty_environment_def
      get_redirect_target_def)

subsection \<open>Facades and validation\<close>

lemma make_request_session_only:
  "sess (session_call config meth endpoint params js) = sess' (session_call config meth endpoint params js)
   \<Longrightarrow> make_request config sess meth endpoint params js
         = make_request config sess' meth endpoint params js"
  by (simp add: make_request_def session_call_def)

lemma worker_data_of_name:
  assumes "\<not> (truthy_str capabilities \<and> loads (the capabilities) = None)"
    and "\<not> (truthy_str metadata \<and> loads (the metadata) = None)"
  shows "\<exists>wd. worker_data_of loads name worker_type host port max_load capabilities metadata
                 = Inr wd
              \<and> map_of wd ''name'' = Some (JStr name)"
  using assms by (simp add: worker_data_of_def Let_def)

lemma worker_data_of_invalid:
  assumes "(truthy_str capabilities \<and> loads (the capabilities) = None)
           \<or> (truthy_str metadata \<and> loads (the metadata) = None)"
  shows "\<exists>problem. worker_data_of loads name worker_type host port max_load capabilities metadata
                 = Inl problem"
  using assms by (auto simp: worker_data_of_def Let_def)

lemma register_worker_command_attempts:
  "worker_data_of loads name worker_type host port max_load capabilities metadata = Inr wd
   \<Longrightarrow> snd (register_worker_command config sess loads name worker_type host port max_load
              capabilities metadata)
         = snd (sess (session_call config ''POST'' ''/api/workers'' None (Some (JObj wd))))"
  using make_request_attempts [of config sess "''POST''" "''/api/workers''" None "Some (JObj wd)"]
  by (auto simp: register_worker_command_def register_worker_def
      split: prod.splits sum.splits exn.splits)

text \<open>
  Claim C8, as stated, at the empty name: the worker-registration facade, given the
  dictionary that the \<^verbatim>\<open>workers register\<close> command builds for the name \<^verbatim>\<open>""\<close>, sends it
  to the gateway in one HTTP attempt and returns the gateway's answer; and the command
  itself, called with the empty name, makes that attempt and prints its success message.
  Nothing is raised before the call.
\<close>

theorem register_worker_empty_name_is_sent:
  "register_worker default_config (session_request lenient default_config workers_gateway)
       (JObj [(''name'', JStr ''''), (''type'', JStr ''general''), (''max_load'', JInt 1),
              (''status'', JStr ''available'')])
     = (Inr (JObj [(''name'', JStr ''''), (''type'', JStr ''general''), (''max_load'', JInt 1),
              (''status'', JStr ''available'')]), 1)
   \<and> register_worker_command default_config
        (session_request lenient default_config workers_gateway)
        loads_nothing '''' ''general'' None None 1 None None
     = ([SuccessMessage (''Worker '' @ [CHR 0x27, CHR 0x27] @ '' registered successfully'')], 1)"
  by code_simp

text \<open>
  Claim C8, amended. The facades check nothing of their own. For every session and every
  worker data, the worker-registration facade hands the session one request, the
  \<^verbatim>\<open>POST\<close> to \<^verbatim>\<open>/api/workers\<close> under the base URL with the configured timeout and the
  worker data as its JSON: it returns what the dispatcher returns for this descriptor,
  its HTTP attempts are those the session makes for this request, and its result
  depends on the session through this request alone. For every name, the empty one
  included, the \<^verbatim>\<open>workers register\<close> command does the same with a dictionary whose
  \<^verbatim>\<open>name\<close> is the name given, whenever its \<^verbatim>\<open>capabilities\<close> and \<^verbatim>\<open>metadata\<close> options are
  absent, empty or valid JSON; otherwise it makes no attempt. The facades that take an
  identifier hand the session the \<^verbatim>\<open>GET\<close> of the path that ends with the identifier,
  whatever the identifier, the empty one included.
\<close>

theorem facades_send_without_validation:
  "register_worker config sess worker_data
     = make_request config sess ''POST'' ''/api/workers'' None (Some worker_data)
   \<and> snd (register_worker config sess worker_data)
       = snd (sess \<lparr>req_method = ''POST'', req_url = get_api_url config ''/api/workers'',
                     req_timeout = api_timeout config, req_params = None,
                     req_json = Some worker_data\<rparr>)
   \<and> (sess \<lparr>req_method = ''POST'', req_url = get_api_url config ''/api/workers'',
              req_timeout = api_timeout config, req_params = None,
              req_json = Some worker_data\<rparr>
        = sess' \<lparr>req_method = ''POST'', req_url = get_api_url config ''/api/workers'',
                 req_timeout = api_timeout config, req_params = None,
                 req_json = Some worker_data\<rparr>
      \<longrightarrow> register_worker config sess worker_data = register_worker config sess' worker_data)
   \<and> (\<not> (truthy_str capabilities \<and> loads (the capabilities) = None)
        \<and> \<not> (truthy_str metadata \<and> loads (the metadata) = None) \<longrightarrow>
      (\<exists>wd. worker_data_of loads name worker_type host port max_load capabilities metadata
               = Inr wd
           \<and> map_of wd ''name'' = Some (JStr name)
           \<and> snd (register_worker_command config sess loads name worker_type host port max_load
                    capabilities metadata)
               = snd (sess \<lparr>req_method = ''POST'',
                             req_url = get_api_url config ''/api/workers'',
                             req_timeout = api_timeout config, req_params = None,
                             req_json = Some (JObj wd)\<rparr>)))
   \<and> ((truthy_str capabilities \<and> loads (the capabilities) = None)
        \<or> (truthy_str metadata \<and> loads (the metadata) = None) \<longrightarrow>
      snd (register_worker_command config sess loads name worker_type host port max_load
             capabilities metadata) = 0)
   \<and> snd (get_worker config sess worker_id)
       = snd (sess \<lparr>req_method = ''GET'',
                     req_url = get_api_url config (''/api/workers/'' @ worker_id),
                     req_timeout = api_timeout config, req_params = None, req_json = None\<rparr>)
   \<and> snd (get_model config sess model_id)
       = snd (sess \<lparr>req_method = ''GET'',
                     req_url = get_api_url config (''/api/models/'' @ model_id),
                     req_timeout = api_timeout config, req_params = None, req_json = None\<rparr>)
   \<and> snd (get_task config sess task_id)
       = snd (sess \<lparr>req_method = ''GET'',
                     req_url = get_api_url config (''/api/tasks/'' @ task_id),
                     req_timeout = api_timeout config, req_params = None, req_json = None\<rparr>)"
proof -
  have same: "register_worker config sess worker_data = register_worker config sess' worker_data"
    if "sess (session_call config ''POST'' ''/api/workers'' None (Some worker_data))
        = sess' (session_call config ''POST'' ''/api/workers'' None (Some worker_data))"
    using make_request_session_only
        [of sess config "''POST''" "''/api/workers''" None "Some worker_data" sess'] that
    by (simp add: register_worker_def)
  have cmd: "\<exists>wd. worker_data_of loads name worker_type host port max_load capabilities metadata
               = Inr wd
           \<and> map_of wd ''name'' = Some (JStr name)
           \<and> snd (register_worker_command config sess loads name worker_type host port max_load
                    capabilities metadata)
               = snd (sess (session_call config ''POST'' ''/api/workers'' None (Some (JObj wd))))"
    if "\<not> (truthy_str capabilities \<and> loads (the capabilities) = None)"
      and "\<not> (truthy_str metadata \<and> loads (the metadata) = None)"
    using worker_data_of_name [OF that] register_worker_command_attempts by blast
  have none: "snd (register_worker_command config sess loads name worker_type host port max_load
             capabilities metadata) = 0"
    if "(truthy_str capabilities \<and> loads (the capabilities) = None)
        \<or> (truthy_str metadata \<and> loads (the metadata) = None)"
    using worker_data_of_invalid [OF that, of name worker_type host port max_load]
    by (auto simp: register_worker_command_def)
  show ?thesis
    using same cmd none
    by (simp add: register_worker_def get_worker_def get_model_def get_task_def
        make_request_attempts session_call_def)
qed

text \<open>
  The default configuration and the gateway of the examples: the command, called with
  the empty name, makes the one attempt of its request.
\<close>

theorem facades_send_without_validation_witness:
  "\<not> (truthy_str None \<and> loads_nothing (the None) = None)
   \<and> (\<exists>wd. worker_data_of loads_nothing '''' ''general'' None None 1 None None = Inr wd
          \<and> map_of wd ''name'' = Some (JStr '''')
          \<and> snd (register_worker_command default_config
                   (session_request lenient default_config workers_gateway)
                   loads_nothing '''' ''general'' None None 1 None None)
              = snd (session_request lenient default_config workers_gateway
                      \<lparr>req_method = ''POST'',
                       req_url = get_api_url default_config ''/api/workers'',
                       req_timeout = api_timeout default_config, req_params = None,
                       req_json = Some (JObj wd)\<rparr>))
   \<and> (truthy_str (Some ''{'') \<and> loads_nothing (the (Some ''{'')) = None)
   \<and> snd (register_worker_command default_config
            (session_request lenient default_config workers_gateway)
            loads_nothing '''' ''general'' None None 1 (Some ''{'') None) = 0"
  using facades_send_without_validation
      [where capabilities = None and loads = loads_nothing and metadata = None
        and name = "[]" and worker_type = "''general''" and host = None and port = None
        and max_load = 1 and config = default_config
        and sess = "session_request lenient default_config workers_gateway"]
    facades_send_without_validation
      [where capabilities = "Some ''{''" and loads = loads_nothing and metadata = None
        and name = "[]" and worker_type = "''general''" and host = None and port = None
        and max_load = 1 and config = default_config
        and sess = "session_request lenient default_config workers_gateway"]
  by (simp add: truthy_str_def loads_nothing_def)

subsection \<open>Resolving the configuration\<close>

text \<open>
  Claim C9, as stated, at a base URL that is no URL, a negative timeout and zero
  retries: the resolution returns a configuration holding exactly these values.
\<close>

theorem cli_accepts_invalid_values:
  "cli (empty_environment\<lparr>env_api_retries := Some 0\<rparr>)
       (no_flags\<lparr>flag_api_url := Some ''not a url'', flag_timeout := Some (- 5)\<rparr>)
     = \<lparr>api_url = ''not a url'', api_timeout = - 5, api_retries = 0, api_key = None,
        verbose = False, quiet = False\<rparr>"
  by (simp add: cli_def CLIConfig_init_def empty_environment_def no_flags_def truthy_str_def
      truthy_int_def)

text \<open>
  Claim C9, amended. With no option and an empty environment the configuration has the
  base URL \<^verbatim>\<open>http://localhost:8080\<close>, the timeout 30 and 3 retries. Values are taken as
  given, without validation: a non-empty \<^verbatim>\<open>--api-url\<close> and a non-zero \<^verbatim>\<open>--timeout\<close> become
  the base URL and the timeout whatever they are; without such an option the
  environment's base URL and timeout are used whatever they are; and the retries are
  the environment's value whatever it is.
\<close>

theorem cli_resolution:
  "cli empty_environment no_flags
     = \<lparr>api_url = ''http://localhost:8080'', api_timeout = 30, api_retries = 3, api_key = None,
        verbose = False, quiet = False\<rparr>
   \<and> (u \<noteq> [] \<longrightarrow> api_url (cli env (fl\<lparr>flag_api_url := Some u\<rparr>)) = u)
   \<and> (t \<noteq> 0 \<longrightarrow> api_timeout (cli env (fl\<lparr>flag_timeout := Some t\<rparr>)) = t)
   \<and> (\<not> truthy_str (flag_api_url fl) \<longrightarrow> api_url (cli (env\<lparr>env_api_url := Some u\<rparr>) fl) = u)
   \<and> (\<not> truthy_int (flag_timeout fl) \<longrightarrow>
        api_timeout (cli (env\<lparr>env_api_timeout := Some t\<rparr>) fl) = t)
   \<and> api_retries (cli (env\<lparr>env_api_retries := Some r\<rparr>) fl) = r"
  by (simp add: cli_def CLIConfig_init_def empty_environment_def no_flags_def truthy_str_def
      truthy_int_def Let_def)

theorem cli_resolution_witness:
  "''gateway'' \<noteq> [] \<and> (- 1 :: int) \<noteq> 0
   \<and> api_url (cli empty_environment (no_flags\<lparr>flag_api_url := Some ''gateway''\<rparr>)) = ''gateway''
   \<and> api_timeout (cli empty_environment (no_flags\<lparr>flag_timeout := Some (- 1)\<rparr>)) = - 1
   \<and> \<not> truthy_str (flag_api_url no_flags) \<and> \<not> truthy_int (flag_timeout no_flags)
   \<and> api_url (cli (empty_environment\<lparr>env_api_url := Some ''gateway''\<rparr>) no_flags) = ''gateway''
   \<and> api_timeout (cli (empty_environment\<lparr>env_api_timeout := Some (- 1)\<rparr>) no_flags) = - 1
   \<and> api_retries (cli (empty_environment\<lparr>env_api_retries := Some (- 2)\<rparr>) no_flags) = - 2"
  using cli_resolution [of "''gateway''" empty_environment no_flags "- 1" "- 2"]
  by (simp add: no_flags_def truthy_str_def truthy_int_def)

end
